theory Spec2Isabelle
  imports Complex_Main
begin

section \<open>Values shared by the three transforms\<close>

text \<open>
  The repository holds three independent array transforms: \<open>normalize_cupy\<close>
  (prep/normalize.py), \<open>median_filter3d\<close> with its alias \<open>remove_outlier3d\<close>
  (misc/corr.py) and \<open>correct_distortion\<close> with \<open>_load_metadata_txt\<close>
  (correction.py). Each is embedded below as a function on an explicit store of arrays.

  Array elements are real numbers: float32 and float64 arithmetic is idealised as exact
  arithmetic. Where the floating-point result would hold a NaN or an infinity (a mean over
  zero frames, the logarithm of a non-positive value, the conversion of \<open>None\<close> to a
  float) the embedding stops with the outcome \<open>NonFinite\<close>, which is not an exception of
  the source but the edge of what is modelled.
\<close>

text \<open>The messages of the \<open>ValueError\<close>s that the source raises or that the libraries
  raise for it.\<close>

datatype verr =
    BadDtype          \<comment> \<open>"The input data should be either float32 or uint16 data type"\<close>
  | ZeroDim           \<comment> \<open>"The length of one of dimensions is equal to zero"\<close>
  | Not3D             \<comment> \<open>"The input array must be a 3D array"\<close>
  | BadKernel         \<comment> \<open>"Please select a correct kernel size: 3, 5, 7, 9, 11, 13"\<close>
  | Data3D            \<comment> \<open>"Input data must be a 3D stack of projections"\<close>
  | Flats2D3D         \<comment> \<open>"Input flats must be 2D or 3D data only"\<close>
  | Darks2D3D         \<comment> \<open>"Input darks must be 2D or 3D data only"\<close>
  | StepTooLarge      \<comment> \<open>"Method doesn't work with the step in the preview larger than 1"\<close>
  | NoSuchFile        \<comment> \<open>"No such file: ... Please check the file path"\<close>
  | CantOpen          \<comment> \<open>"Can't open this file: ..."\<close>
  | PreviewTooSmall   \<comment> \<open>"You need to increase the preview size for this plugin to work"\<close>
  | NotAFloat         \<comment> \<open>\<open>float(token)\<close> on a token that is no number\<close>
  | Broadcast         \<comment> \<open>operands or an assignment whose shapes do not broadcast\<close>
  | EmptyReduction    \<comment> \<open>\<open>np.max\<close> or \<open>np.min\<close> of an array without elements\<close>

datatype exn =
    TypeError
  | FileNotFoundError
  | IsADirectoryError
  | IndexError
  | KeyError
  | AxisError
  | UnboundLocalError
  | RuntimeError
  | ValueError verr
  | NonFinite

datatype dtype = UInt8 | UInt16 | Int16 | Int32 | Int64 | Float32 | Float64

text \<open>An array is its element type, its shape and its element at every index tuple
  (the memory layout is left out). Only the elements at indices inside the shape mean
  anything.\<close>

record ndarray =
  dtype :: dtype
  shape :: "nat list"
  elem :: "nat list \<Rightarrow> real"

definition ndim :: "ndarray \<Rightarrow> nat" where
  "ndim a = length (shape a)"

text \<open>All index tuples of a shape, in row-major order.\<close>

primrec indices :: "nat list \<Rightarrow> nat list list" where
  "indices [] = [[]]"
| "indices (n # ns) = concat (map (\<lambda>i. map (\<lambda>r. i # r) (indices ns)) [0..<n])"

text \<open>A launch of a compiled kernel variant: element type, kernel size, grid and block.\<close>

datatype ctype = CFloat | CUShort

datatype launch = Launch ctype int "nat \<times> nat \<times> nat" "nat \<times> nat \<times> nat"

text \<open>
  The store: the arrays that exist, by address; \<open>brk\<close> is the next free address, so
  the arrays of the caller are those below \<open>brk\<close> and an allocation returns \<open>brk\<close>;
  \<open>launches\<close> records the launches of the compiled median kernel in order and
  \<open>device\<close> is the selected compute device, the one piece of process-wide state.
\<close>

record store =
  mem :: "nat \<Rightarrow> ndarray"
  brk :: nat
  launches :: "launch list"
  device :: int

definition alloc :: "ndarray \<Rightarrow> store \<Rightarrow> nat \<times> store" where
  "alloc a s = (brk s, s\<lparr>mem := (mem s)(brk s := a), brk := Suc (brk s)\<rparr>)"

text \<open>An optional argument of a Python call: left out (the default applies) or given.\<close>

datatype 'a arg = Omitted | Given 'a

primrec arg_or :: "'a \<Rightarrow> 'a arg \<Rightarrow> 'a" where
  "arg_or d Omitted = d"
| "arg_or d (Given v) = v"

section \<open>misc/corr.py: the median and dezinger filter\<close>

text \<open>
  Modelled from the spec: the CUDA kernel \<open>median_general_kernel\<close>, which
  \<open>load_cuda_module\<close> compiles from a file that is not among the sources. By section 4.2 of
  the specification every output voxel is computed from a read-only neighbourhood of the
  input and written to the output buffer, so the kernel is a parameter that gives the
  contents of \<open>out\<close> from the variant, the contents of \<open>data\<close>, \<open>dif\<close> and the three
  dimensions. The decorators \<open>method_all\<close> and \<open>nvtx.annotate\<close> (not among the sources
  either) are taken to call the function unchanged.
\<close>

type_synonym median_kernel =
  "ctype \<Rightarrow> int \<Rightarrow> (nat list \<Rightarrow> real) \<Rightarrow> real \<Rightarrow> nat \<Rightarrow> nat \<Rightarrow> nat \<Rightarrow> (nat list \<Rightarrow> real)"

definition median_filter3d ::
  "median_kernel \<Rightarrow> store \<Rightarrow> nat \<Rightarrow> int arg \<Rightarrow> real arg \<Rightarrow> (exn + nat) \<times> store" where
  "median_filter3d median3d s data kernel_size dif =
    (let kernel_size = arg_or 3 kernel_size;
         dif = arg_or 0 dif;
         a = mem s data;
         input_type = dtype a
     in if input_type \<notin> set [Float32, UInt16] then (Inl (ValueError BadDtype), s)
        else if ndim a \<noteq> 3 then (Inl (ValueError Not3D), s)
        else if 0 \<in> set (shape a) then (Inl (ValueError ZeroDim), s)
        else if kernel_size \<notin> set [3, 5, 7, 9, 11, 13] then (Inl (ValueError BadKernel), s)
        else
          let ct = (if input_type = Float32 then CFloat else CUShort);
              dz = shape a ! 0; dy = shape a ! 1; dx = shape a ! 2;
              block_x = 128;
              block_dims = (block_x, 1, 1);
              grid_dims = ((dx + block_x - 1) div block_x, dy, dz);
              (out, s1) = alloc \<lparr>dtype = input_type, shape = shape a,
                                 elem = median3d ct kernel_size (elem a) dif dz dy dx\<rparr> s
          in (Inr out, s1\<lparr>launches := launches s1 @ [Launch ct kernel_size grid_dims block_dims]\<rparr>))"

definition remove_outlier3d ::
  "median_kernel \<Rightarrow> store \<Rightarrow> nat \<Rightarrow> int arg \<Rightarrow> real arg \<Rightarrow> (exn + nat) \<times> store" where
  "remove_outlier3d median3d s data kernel_size dif =
    median_filter3d median3d s data (Given (arg_or 3 kernel_size)) (Given (arg_or (1 / 10) dif))"

section \<open>prep/normalize.py: flat and dark field normalisation\<close>

text \<open>Broadcasting of two shapes as numpy and cupy do it: aligned at the last axis, two
  lengths agree when they are equal or one of them is 1. \<open>bcast_rev\<close> works on the
  reversed shapes.\<close>

fun bcast_rev :: "nat list \<Rightarrow> nat list \<Rightarrow> nat list option" where
  "bcast_rev [] ys = Some ys"
| "bcast_rev (x # xs) [] = Some (x # xs)"
| "bcast_rev (x # xs) (y # ys) =
     (if x = y \<or> x = 1 \<or> y = 1
      then map_option ((#) (if x = 1 then y else x)) (bcast_rev xs ys)
      else None)"

definition broadcast_shapes :: "nat list \<Rightarrow> nat list \<Rightarrow> nat list option" where
  "broadcast_shapes a b = map_option rev (bcast_rev (rev a) (rev b))"

text \<open>The index into an operand of shape \<open>sh\<close> for the index \<open>idx\<close> of the broadcast
  result: the last axes of \<open>idx\<close>, and 0 along every axis of length 1.\<close>

definition bidx :: "nat list \<Rightarrow> nat list \<Rightarrow> nat list" where
  "bidx sh idx = map2 (\<lambda>n i. if n = 1 then 0 else i) sh (drop (length idx - length sh) idx)"

definition broadcast_op ::
  "(real \<Rightarrow> real \<Rightarrow> real) \<Rightarrow> dtype \<Rightarrow> ndarray \<Rightarrow> ndarray \<Rightarrow> exn + ndarray" where
  "broadcast_op f dt a b =
    (case broadcast_shapes (shape a) (shape b) of
       None \<Rightarrow> Inl (ValueError Broadcast)
     | Some sh \<Rightarrow>
         Inr \<lparr>dtype = dt, shape = sh,
              elem = (\<lambda>idx. f (elem a (bidx (shape a) idx)) (elem b (bidx (shape b) idx)))\<rparr>)"

text \<open>\<open>mean(a, axis=0, dtype=float32)\<close>: an array without axes has no axis 0; the mean
  over zero frames is NaN at every element of the result.\<close>

definition mean_axis0 :: "ndarray \<Rightarrow> exn + ndarray" where
  "mean_axis0 a =
    (case shape a of
       [] \<Rightarrow> Inl AxisError
     | k # rest \<Rightarrow>
         if k = 0 \<and> prod_list rest \<noteq> 0 then Inl NonFinite
         else Inr \<lparr>dtype = Float32, shape = rest,
                   elem = (\<lambda>idx. sum_list (map (\<lambda>i. elem a (i # idx)) [0..<k]) / real k)\<rparr>)"

text \<open>\<open>a[cp.newaxis, :, :]\<close>\<close>

definition newaxis :: "ndarray \<Rightarrow> ndarray" where
  "newaxis a = a\<lparr>shape := 1 # shape a, elem := (\<lambda>idx. elem a (tl idx))\<rparr>"

text \<open>The element type of an array of type \<open>dt\<close> combined with a float32 array.\<close>

fun promote_float32 :: "dtype \<Rightarrow> dtype" where
  "promote_float32 Float64 = Float64"
| "promote_float32 Int32 = Float64"
| "promote_float32 Int64 = Float64"
| "promote_float32 dt = Float32"

text \<open>\<open>-log(data)\<close>: the logarithm of a value that is not positive is NaN or an infinity.\<close>

definition neg_log :: "ndarray \<Rightarrow> exn + ndarray" where
  "neg_log a =
    (if list_all (\<lambda>idx. 0 < elem a idx) (indices (shape a))
     then Inr (a\<lparr>elem := (\<lambda>idx. - ln (elem a idx))\<rparr>)
     else Inl NonFinite)"

text \<open>
  \<open>normalize_cupy(data, flats, darks, gpu_id, cutoff, minus_log, nonnegativity,
  remove_nans)\<close>; the three arrays are given by their addresses. The result is a new
  array. No element of the model is NaN, so \<open>data[cp.isnan(data)] = 0\<close> changes nothing
  here.
\<close>

definition normalize_cupy ::
  "store \<Rightarrow> nat \<Rightarrow> nat \<Rightarrow> nat \<Rightarrow> int \<Rightarrow> real \<Rightarrow> bool \<Rightarrow> bool \<Rightarrow> bool \<Rightarrow> (exn + nat) \<times> store" where
  "normalize_cupy s0 data flats darks gpu_id cutoff minus_log nonnegativity remove_nans =
    (let s = s0\<lparr>device := gpu_id\<rparr> in
     (case mean_axis0 (mem s darks) of Inl e \<Rightarrow> (Inl e, s) | Inr darks1 \<Rightarrow>
     (case mean_axis0 (mem s flats) of Inl e \<Rightarrow> (Inl e, s) | Inr flats1 \<Rightarrow>
      if ndim (mem s data) \<noteq> 3 then (Inl (ValueError Data3D), s)
      else
        let flats2 = (if ndim flats1 = 2 then newaxis flats1 else flats1);
            darks2 = (if ndim darks1 = 2 then newaxis darks1 else darks1)
        in if ndim flats2 \<notin> set [2, 3] then (Inl (ValueError Flats2D3D), s)
           else if ndim darks2 \<notin> set [2, 3] then (Inl (ValueError Darks2D3D), s)
           else
            (case broadcast_op (-) Float32 flats2 darks2 of Inl e \<Rightarrow> (Inl e, s) | Inr denom0 \<Rightarrow>
             let denom = denom0\<lparr>elem := (\<lambda>idx. if elem denom0 idx < 1 then 1 else elem denom0 idx)\<rparr>;
                 dt = promote_float32 (dtype (mem s data))
             in
            (case broadcast_op (-) dt (mem s data) darks2 of Inl e \<Rightarrow> (Inl e, s) | Inr num \<Rightarrow>
            (case broadcast_op (/) dt num denom of Inl e \<Rightarrow> (Inl e, s) | Inr quot \<Rightarrow>
             let data1 = quot\<lparr>elem := (\<lambda>idx. if cutoff < elem quot idx then cutoff else elem quot idx)\<rparr>
             in
            (case (if minus_log then neg_log data1 else Inr data1) of Inl e \<Rightarrow> (Inl e, s) | Inr data2 \<Rightarrow>
             let data3 = (if nonnegativity
                          then data2\<lparr>elem := (\<lambda>idx. if elem data2 idx < 0 then 0 else elem data2 idx)\<rparr>
                          else data2);
                 (out, s1) = alloc data3 s
             in (Inr out, s1))))))))"

section \<open>correction.py: radial distortion correction\<close>

subsection \<open>Python and library operations the module calls\<close>

text \<open>Sequencing of steps that may raise.\<close>

fun sbind :: "exn + 'a \<Rightarrow> ('a \<Rightarrow> exn + 'b) \<Rightarrow> exn + 'b" where
  "sbind (Inl e) f = Inl e"
| "sbind (Inr x) f = f x"

text \<open>\<open>xs[i]\<close> for an index that is not negative, and \<open>d[k]\<close> for a dict.\<close>

definition py_nth :: "'a list \<Rightarrow> nat \<Rightarrow> exn + 'a" where
  "py_nth xs i = (if i < length xs then Inr (xs ! i) else Inl IndexError)"

definition dict_get :: "('k \<Rightarrow> 'v option) \<Rightarrow> 'k \<Rightarrow> exn + 'v" where
  "dict_get d k = (case d k of None \<Rightarrow> Inl KeyError | Some v \<Rightarrow> Inr v)"

text \<open>The file system: a path names nothing, a directory, or a regular file with the text
  that \<open>f.read()\<close> returns in text mode.\<close>

datatype fsnode = RegularFile string | Directory

type_synonym filesystem = "string \<Rightarrow> fsnode option"

definition isfile :: "filesystem \<Rightarrow> string \<Rightarrow> bool" where
  "isfile fs p = (case fs p of Some (RegularFile txt) \<Rightarrow> True | _ \<Rightarrow> False)"

text \<open>\<open>open(file_path, 'r')\<close> followed by \<open>f.read()\<close>.\<close>

definition open_read :: "filesystem \<Rightarrow> string option \<Rightarrow> exn + string" where
  "open_read fs file_path =
    (case file_path of
       None \<Rightarrow> Inl TypeError
     | Some p \<Rightarrow>
        (case fs p of
           None \<Rightarrow> Inl FileNotFoundError
         | Some Directory \<Rightarrow> Inl IsADirectoryError
         | Some (RegularFile txt) \<Rightarrow> Inr txt))"

text \<open>The ASCII characters that \<open>str.split()\<close> treats as white space, and those that end a
  line for \<open>str.splitlines()\<close>.\<close>

definition is_space :: "char \<Rightarrow> bool" where
  "is_space c = (c \<in> set [CHR 0x09, CHR 0x0A, CHR 0x0B, CHR 0x0C, CHR 0x0D,
                           CHR 0x1C, CHR 0x1D, CHR 0x1E, CHR 0x1F, CHR 0x20])"

definition is_linebreak :: "char \<Rightarrow> bool" where
  "is_linebreak c = (c \<in> set [CHR 0x0A, CHR 0x0B, CHR 0x0C, CHR 0x0D, CHR 0x1C, CHR 0x1D, CHR 0x1E])"

text \<open>\<open>s.split()\<close>: the maximal runs of characters that are not white space; \<open>cur\<close> is
  the run being read, reversed.\<close>

fun split_acc :: "string \<Rightarrow> string \<Rightarrow> string list" where
  "split_acc cur [] = (if cur = [] then [] else [rev cur])"
| "split_acc cur (c # cs) =
     (if is_space c then (if cur = [] then split_acc [] cs else rev cur # split_acc [] cs)
      else split_acc (c # cur) cs)"

definition split :: "string \<Rightarrow> string list" where
  "split s = split_acc [] s"

text \<open>\<open>s.splitlines()\<close>: the lines without their line breaks; a carriage return followed
  by a line feed is one line break; no empty line after the last line break.\<close>

fun splitlines_acc :: "string \<Rightarrow> string \<Rightarrow> string list" where
  "splitlines_acc cur [] = (if cur = [] then [] else [rev cur])"
| "splitlines_acc cur [c] = (if is_linebreak c then [rev cur] else [rev (c # cur)])"
| "splitlines_acc cur (c # d # cs) =
     (if c = CHR 0x0D \<and> d = CHR 0x0A then rev cur # splitlines_acc [] cs
      else if is_linebreak c then rev cur # splitlines_acc [] (d # cs)
      else splitlines_acc (c # cur) (d # cs))"

definition splitlines :: "string \<Rightarrow> string list" where
  "splitlines s = splitlines_acc [] s"

text \<open>
  Python's built-in \<open>float\<close> on a string is a parameter of the embedding:
  \<open>Inl (ValueError NotAFloat)\<close> where it raises, \<open>Inl NonFinite\<close> for the spellings of NaN
  and the infinities, and the number otherwise.
\<close>

type_synonym pyfloat = "string \<Rightarrow> exn + real"

text \<open>A Python slice \<open>[start:stop]\<close> of a sequence of length \<open>n\<close>: the first index and
  the number of elements.\<close>

definition slice_adjust :: "nat \<Rightarrow> int \<Rightarrow> nat" where
  "slice_adjust n i = (if i < 0 then nat (max (i + int n) 0) else min (nat i) n)"

definition slice_bounds :: "nat \<Rightarrow> int \<Rightarrow> int \<Rightarrow> nat \<times> nat" where
  "slice_bounds n start stop = (slice_adjust n start, slice_adjust n stop - slice_adjust n start)"

text \<open>
  \<open>scipy.ndimage.map_coordinates(img, coordinates, order=1, mode='reflect')\<close> at one
  point \<open>(y, x)\<close> of a 2D image of \<open>h\<close> rows and \<open>w\<close> columns, from the documentation of
  the library: linear interpolation between the four neighbouring pixels, an index outside
  the image being reflected about the edge of the last pixel (d c b a | a b c d | d c b a).
\<close>

definition reflect_index :: "nat \<Rightarrow> int \<Rightarrow> nat" where
  "reflect_index n i =
    (let m = i mod (2 * int n) in nat (if m < int n then m else 2 * int n - 1 - m))"

definition interp_linear :: "(nat list \<Rightarrow> real) \<Rightarrow> nat \<Rightarrow> nat \<Rightarrow> real \<Rightarrow> real \<Rightarrow> real" where
  "interp_linear img h w y x =
    (let y0 = \<lfloor>y\<rfloor>; x0 = \<lfloor>x\<rfloor>;
         ty = y - of_int y0; tx = x - of_int x0;
         px = (\<lambda>i j. img [reflect_index h i, reflect_index w j])
     in (1 - ty) * (1 - tx) * px y0 x0 + (1 - ty) * tx * px y0 (x0 + 1)
        + ty * (1 - tx) * px (y0 + 1) x0 + ty * tx * px (y0 + 1) (x0 + 1))"

text \<open>The value stored into an array of element type \<open>dt\<close>: an integer type truncates
  towards zero.\<close>

definition is_float_dtype :: "dtype \<Rightarrow> bool" where
  "is_float_dtype dt = (dt \<in> set [Float32, Float64])"

definition cast_to :: "dtype \<Rightarrow> real \<Rightarrow> real" where
  "cast_to dt v = (if is_float_dtype dt then v
                   else if 0 \<le> v then of_int \<lfloor>v\<rfloor> else of_int \<lceil>v\<rceil>)"

subsection \<open>\<open>_load_metadata_txt\<close>\<close>

text \<open>The loop \<open>for i in x: list_data.append(float(i.split()[-1]))\<close>: a line without a
  token raises \<open>IndexError\<close>, a last token that is no number raises \<open>ValueError\<close>.\<close>

fun parse_lines :: "pyfloat \<Rightarrow> string list \<Rightarrow> exn + real list" where
  "parse_lines pf [] = Inr []"
| "parse_lines pf (i # x) =
     (case split i of
        [] \<Rightarrow> Inl IndexError
      | t # ts \<Rightarrow> sbind (pf (last (t # ts))) (\<lambda>v. sbind (parse_lines pf x) (\<lambda>vs. Inr (v # vs))))"

definition load_metadata_txt ::
  "pyfloat \<Rightarrow> filesystem \<Rightarrow> string option \<Rightarrow> exn + (real \<times> real \<times> real list)" where
  "load_metadata_txt pf fs file_path =
    sbind (open_read fs file_path) (\<lambda>txt.
    sbind (parse_lines pf (splitlines txt)) (\<lambda>list_data.
      case list_data of
        [] \<Rightarrow> Inl IndexError
      | [xcenter] \<Rightarrow> Inl IndexError
      | xcenter # ycenter # list_fact \<Rightarrow> Inr (xcenter, ycenter, list_fact)))"

subsection \<open>\<open>correct_distortion\<close>\<close>

type_synonym preview = "string \<Rightarrow> int list option"

text \<open>
  Lines 60 to 100 of correction.py: the first, unguarded call of \<open>_load_metadata_txt\<close>
  (its result is dropped), the check of the preview steps at the indices \<open>x_dim = 1\<close> and
  \<open>y_dim = 0\<close>, the offsets, and the centre and coefficients from the arguments (no
  path) or from the file. \<open>except IOError\<close> catches the errors of \<open>open\<close>.
\<close>

definition distortion_model ::
  "pyfloat \<Rightarrow> filesystem \<Rightarrow> string option \<Rightarrow> preview \<Rightarrow> real option \<Rightarrow> real option
     \<Rightarrow> real list option \<Rightarrow> exn + (real \<times> real \<times> real list)" where
  "distortion_model pf fs metadata_path preview center_from_left center_from_top polynomial_coeffs =
    sbind (load_metadata_txt pf fs metadata_path) (\<lambda>unused.
    sbind (dict_get preview ''starts'') (\<lambda>shift.
    sbind (dict_get preview ''steps'') (\<lambda>step.
    sbind (py_nth step 1) (\<lambda>step_x.
    sbind (py_nth step 0) (\<lambda>step_y.
      if max step_x step_y > 1 then Inl (ValueError StepTooLarge)
      else
        sbind (py_nth shift 1) (\<lambda>x_offset.
        sbind (py_nth shift 0) (\<lambda>y_offset.
          case metadata_path of
            None \<Rightarrow>
              (case polynomial_coeffs of
                 None \<Rightarrow> Inl TypeError
               | Some coeffs \<Rightarrow>
                  (case (center_from_left, center_from_top) of
                     (Some cl, Some ct) \<Rightarrow> Inr (cl - of_int x_offset, ct - of_int y_offset, coeffs)
                   | _ \<Rightarrow> Inl NonFinite))
          | Some p \<Rightarrow>
              if \<not> isfile fs p then Inl (ValueError NoSuchFile)
              else
                (case load_metadata_txt pf fs metadata_path of
                   Inl e \<Rightarrow>
                     if e \<in> set [FileNotFoundError, IsADirectoryError]
                     then Inl (ValueError CantOpen) else Inl e
                 | Inr (x_center, y_center, list_fact) \<Rightarrow>
                     Inr (x_center - of_int x_offset, y_center - of_int y_offset, list_fact)))))))))"

text \<open>Lines 102 to 114: the radial factor \<open>sum_i factor_i * r ** i\<close> and the clipped source
  coordinates of the pixel in row \<open>y\<close> and column \<open>x\<close>.\<close>

definition fact_mat :: "real list \<Rightarrow> real \<Rightarrow> real \<Rightarrow> nat \<Rightarrow> nat \<Rightarrow> real" where
  "fact_mat list_fact x_center y_center y x =
    (let ru = sqrt ((real x - x_center) ^ 2 + (real y - y_center) ^ 2)
     in sum_list (map (\<lambda>(i, factor). factor * ru ^ i) (enumerate 0 list_fact)))"

definition clip :: "real \<Rightarrow> real \<Rightarrow> real \<Rightarrow> real" where
  "clip v lo hi = min (max v lo) hi"

definition xd_mat :: "nat \<Rightarrow> real list \<Rightarrow> real \<Rightarrow> real \<Rightarrow> nat \<Rightarrow> nat \<Rightarrow> real" where
  "xd_mat width list_fact x_center y_center y x =
    clip (x_center + fact_mat list_fact x_center y_center y x * (real x - x_center))
         0 (of_int (int width - 1))"

definition yd_mat :: "nat \<Rightarrow> real list \<Rightarrow> real \<Rightarrow> real \<Rightarrow> nat \<Rightarrow> nat \<Rightarrow> real" where
  "yd_mat height list_fact x_center y_center y x =
    clip (y_center + fact_mat list_fact x_center y_center y x * (real y - y_center))
         0 (of_int (int height - 1))"

text \<open>\<open>np.max(m) - np.min(m)\<close> over a matrix of \<open>height\<close> rows and \<open>width\<close> columns.\<close>

definition max_minus_min :: "nat \<Rightarrow> nat \<Rightarrow> (nat \<Rightarrow> nat \<Rightarrow> real) \<Rightarrow> exn + real" where
  "max_minus_min height width m =
    (let vals = concat (map (\<lambda>y. map (\<lambda>x. m y x) [0..<width]) [0..<height])
     in if vals = [] then Inl (ValueError EmptyReduction)
        else Inr (Max (set vals) - Min (set vals)))"

text \<open>One frame unwarped and cropped:
  \<open>np.reshape(map_coordinates(data[i], indices, order=1, mode='reflect'), (height, width))\<close>
  and then \<open>[crop:height - crop, crop:width - crop]\<close>.\<close>

definition unwarp_frame ::
  "ndarray \<Rightarrow> nat \<Rightarrow> (nat \<Rightarrow> nat \<Rightarrow> real) \<Rightarrow> (nat \<Rightarrow> nat \<Rightarrow> real) \<Rightarrow> nat \<Rightarrow> nat \<Rightarrow> int \<Rightarrow> ndarray" where
  "unwarp_frame d i yd xd height width crop =
    (let (y_start, y_len) = slice_bounds height crop (int height - crop);
         (x_start, x_len) = slice_bounds width crop (int width - crop)
     in \<lparr>dtype = Float64, shape = [y_len, x_len],
         elem = (\<lambda>idx. case idx of
                    [y, x] \<Rightarrow> interp_linear (\<lambda>r. elem d (i # r)) height width
                                (yd (y + y_start) (x + x_start)) (xd (y + y_start) (x + x_start))
                  | _ \<Rightarrow> 0)\<rparr>)"

text \<open>The shape of every frame that \<open>unwarp_frame\<close> returns.\<close>

definition cropped_shape :: "nat \<Rightarrow> nat \<Rightarrow> int \<Rightarrow> nat list" where
  "cropped_shape height width crop =
    [snd (slice_bounds height crop (int height - crop)),
     snd (slice_bounds width crop (int width - crop))]"

text \<open>\<open>data[i] = mat_corrected\<close>: the frame must broadcast to the shape of \<open>data[i]\<close>;
  the values are converted to the element type of \<open>data\<close>.\<close>

definition assignable :: "nat list \<Rightarrow> nat list \<Rightarrow> bool" where
  "assignable src dst = (length src \<le> length dst \<and> broadcast_shapes src dst = Some dst)"

definition assign_frame :: "ndarray \<Rightarrow> nat \<Rightarrow> ndarray \<Rightarrow> ndarray" where
  "assign_frame d i m =
    d\<lparr>elem := (\<lambda>idx. case idx of
                  [] \<Rightarrow> elem d idx
                | f # r \<Rightarrow> if f = i then cast_to (dtype d) (elem m (bidx (shape m) r))
                           else elem d idx)\<rparr>"

text \<open>
  The loop of lines 126 to 132 over the frame indices that are left. \<open>d\<close> is the stack as
  written so far and \<open>mc\<close> the variable \<open>mat_corrected\<close> (\<open>None\<close> while it is unbound).
  \<open>map_coordinates\<close> raises \<open>RuntimeError\<close> when \<open>data[i]\<close> is not two-dimensional.
\<close>

fun unwarp_loop ::
  "(nat \<Rightarrow> nat \<Rightarrow> real) \<Rightarrow> (nat \<Rightarrow> nat \<Rightarrow> real) \<Rightarrow> nat \<Rightarrow> nat \<Rightarrow> int
     \<Rightarrow> nat list \<Rightarrow> ndarray \<Rightarrow> ndarray option \<Rightarrow> exn option \<times> ndarray \<times> ndarray option" where
  "unwarp_loop yd xd height width crop [] d mc = (None, d, mc)"
| "unwarp_loop yd xd height width crop (i # rest) d mc =
     (if ndim d \<noteq> 3 then (Some RuntimeError, d, mc)
      else
        let m = unwarp_frame d i yd xd height width crop
        in if \<not> assignable (shape m) [height, width] then (Some (ValueError Broadcast), d, Some m)
           else unwarp_loop yd xd height width crop rest (assign_frame d i m) (Some m))"

text \<open>
  \<open>correct_distortion(data, metadata_path, preview, center_from_left, center_from_top,
  polynomial_coeffs, crop)\<close>; \<open>data\<close> is the address of the array. A two-dimensional
  array is viewed as a stack of one frame (\<open>np.expand_dims\<close> returns a view, so the loop
  writes into the array of the caller). The function returns \<open>mat_corrected\<close>, as a new
  array, and leaves what the loop wrote in the array at \<open>data\<close>.
\<close>

definition correct_distortion ::
  "pyfloat \<Rightarrow> filesystem \<Rightarrow> store \<Rightarrow> nat \<Rightarrow> string option \<Rightarrow> preview \<Rightarrow> real option \<Rightarrow> real option
     \<Rightarrow> real list option \<Rightarrow> int \<Rightarrow> (exn + nat) \<times> store" where
  "correct_distortion pf fs s data metadata_path preview center_from_left center_from_top
      polynomial_coeffs crop =
    (let a = mem s data;
         view = (if ndim a = 2 then newaxis a else a)
     in
     (case distortion_model pf fs metadata_path preview center_from_left center_from_top
              polynomial_coeffs of
        Inl e \<Rightarrow> (Inl e, s)
      | Inr (x_center, y_center, list_fact) \<Rightarrow>
     (case sbind (py_nth (shape view) 1) (\<lambda>height.
           sbind (py_nth (shape view) 2) (\<lambda>width. Inr (height, width))) of
        Inl e \<Rightarrow> (Inl e, s)
      | Inr (height, width) \<Rightarrow>
         let xd = xd_mat width list_fact x_center y_center;
             yd = yd_mat height list_fact x_center y_center
         in
     (case max_minus_min height width yd of
        Inl e \<Rightarrow> (Inl e, s)
      | Inr diff_y \<Rightarrow>
         if diff_y < 1 then (Inl (ValueError PreviewTooSmall), s)
         else
           let (err, view1, mc) = unwarp_loop yd xd height width crop [0..<shape view ! 0] view None;
               a1 = (if ndim a = 2 then a\<lparr>elem := (\<lambda>idx. elem view1 (0 # idx))\<rparr> else view1);
               s1 = s\<lparr>mem := (mem s)(data := a1)\<rparr>
           in
     (case err of
        Some e \<Rightarrow> (Inl e, s1)
      | None \<Rightarrow>
     (case mc of
        None \<Rightarrow> (Inl UnboundLocalError, s1)
      | Some mat_corrected \<Rightarrow>
          let (out, s2) = alloc mat_corrected s1 in (Inr out, s2)))))))"

section \<open>Concrete inputs\<close>

text \<open>An array with the same value everywhere, and a store holding the given arrays at
  the addresses 0, 1, ...\<close>

definition const_array :: "dtype \<Rightarrow> nat list \<Rightarrow> real \<Rightarrow> ndarray" where
  "const_array dt sh v = \<lparr>dtype = dt, shape = sh, elem = (\<lambda>idx. v)\<rparr>"

definition store_of :: "ndarray list \<Rightarrow> store" where
  "store_of arrs =
    \<lparr>mem = (\<lambda>i. if i < length arrs then arrs ! i else const_array Float32 [] 0),
     brk = length arrs, launches = [], device = 0\<rparr>"

text \<open>A kernel that copies its input, standing in for the compiled kernel at concrete
  inputs.\<close>

definition copy_kernel :: median_kernel where
  "copy_kernel ct ks d dif dz dy dx = d"

text \<open>A stand-in for \<open>float\<close> at concrete inputs: on a string of decimal digits it is
  the number they spell, as \<open>float\<close> is; the concrete inputs below hold no other token.\<close>

definition digit_val :: "char \<Rightarrow> nat" where
  "digit_val c = of_char c - 48"

definition float_of_digits :: pyfloat where
  "float_of_digits tok =
    (if tok \<noteq> [] \<and> list_all (\<lambda>c. c \<in> set ''0123456789'') tok
     then Inr (real (foldl (\<lambda>n c. 10 * n + digit_val c) 0 tok))
     else Inl (ValueError NotAFloat))"

text \<open>A frame whose pixels are all different: pixel \<open>(y, x)\<close> of frame \<open>f\<close> of a stack of
  shape \<open>[n, h, w]\<close> holds \<open>100 * f + 10 * y + x\<close>.\<close>

definition ramp_array :: "dtype \<Rightarrow> nat list \<Rightarrow> ndarray" where
  "ramp_array dt sh =
    \<lparr>dtype = dt, shape = sh,
     elem = (\<lambda>idx. case idx of [f, y, x] \<Rightarrow> real (100 * f + 10 * y + x)
                             | [y, x] \<Rightarrow> real (10 * y + x)
                             | _ \<Rightarrow> 0)\<rparr>"

text \<open>A preview with the given starts and steps, and a file system with one file.\<close>

definition preview_of :: "int list \<Rightarrow> int list \<Rightarrow> preview" where
  "preview_of starts steps =
    (\<lambda>k. if k = ''starts'' then Some starts else if k = ''steps'' then Some steps else None)"

definition one_file :: "string \<Rightarrow> string \<Rightarrow> filesystem" where
  "one_file p txt = (\<lambda>q. if q = p then Some (RegularFile txt) else None)"



definition identity_coeffs :: filesystem where
  "identity_coeffs = one_file ''coeffs.txt'' ''1\<newline>1\<newline>1\<newline>0\<newline>0\<newline>''"

definition unit_preview :: preview where
  "unit_preview = preview_of [0, 0, 0] [1, 1, 1]"

section \<open>Properties of the median and dezinger filter\<close>

text \<open>
  Claim C10. For every array, kernel size and \<open>dif\<close>, \<open>remove_outlier3d(data,
  kernel_size, dif)\<close> is \<open>median_filter3d(data, kernel_size, dif)\<close>: the same result, the
  same errors, the same store afterwards. The two entry points differ in the default of
  \<open>dif\<close> only: 0.1 for \<open>remove_outlier3d\<close>, 0.0 for \<open>median_filter3d\<close>.
\<close>

theorem remove_outlier3d_is_median_filter3d:
  "remove_outlier3d median3d s data kernel_size (Given dif)
     = median_filter3d median3d s data kernel_size (Given dif)
   \<and> remove_outlier3d median3d s data kernel_size Omitted
     = median_filter3d median3d s data kernel_size (Given (1 / 10))
   \<and> median_filter3d median3d s data kernel_size Omitted
     = median_filter3d median3d s data kernel_size (Given 0)"
  by (cases kernel_size) (simp_all add: remove_outlier3d_def median_filter3d_def)

text \<open>
  Claim C6, as the claim states it, fails: the checks run in the order element type, shape,
  kernel size, and the first that fails raises. A two-dimensional float64 array is not
  three-dimensional, and the error raised is the one about the element type, not one of
  the two about the shape.
\<close>

theorem median_filter3d_shape_error_counterexample:
  "ndim (mem (store_of [const_array Float64 [2, 2] 1]) 0) \<noteq> 3
   \<and> fst (median_filter3d copy_kernel (store_of [const_array Float64 [2, 2] 1]) 0 (Given 3) (Given 0))
       = Inl (ValueError BadDtype)
   \<and> fst (median_filter3d copy_kernel (store_of [const_array Float64 [2, 2] 1]) 0 (Given 3) (Given 0))
       \<noteq> Inl (ValueError Not3D)
   \<and> fst (median_filter3d copy_kernel (store_of [const_array Float64 [2, 2] 1]) 0 (Given 3) (Given 0))
       \<noteq> Inl (ValueError ZeroDim)"
  by (simp add: median_filter3d_def store_of_def const_array_def ndim_def)

text \<open>
  Claim C6, amended. \<open>median_filter3d\<close> raises the error about the element type exactly
  when the element type is neither float32 nor uint16; one of the two errors about the
  shape exactly when the element type is accepted and the array is not three-dimensional
  or has an axis of length zero; the error about the kernel size exactly when element type
  and shape are accepted and the kernel size is not one of 3, 5, 7, 9, 11, 13. Whenever an
  error is raised the store is as before the call: no output was allocated and no kernel
  launched. The call succeeds exactly when all three checks pass, and then it has launched
  one kernel.
\<close>

theorem median_filter3d_errors:
  "(fst (median_filter3d median3d s data kernel_size dif) = Inl (ValueError BadDtype)
      \<longleftrightarrow> dtype (mem s data) \<notin> {Float32, UInt16})
   \<and> (fst (median_filter3d median3d s data kernel_size dif)
          \<in> {Inl (ValueError Not3D), Inl (ValueError ZeroDim)}
      \<longleftrightarrow> dtype (mem s data) \<in> {Float32, UInt16}
          \<and> (ndim (mem s data) \<noteq> 3 \<or> 0 \<in> set (shape (mem s data))))
   \<and> (fst (median_filter3d median3d s data kernel_size dif) = Inl (ValueError BadKernel)
      \<longleftrightarrow> dtype (mem s data) \<in> {Float32, UInt16}
          \<and> ndim (mem s data) = 3 \<and> 0 \<notin> set (shape (mem s data))
          \<and> arg_or 3 kernel_size \<notin> {3, 5, 7, 9, 11, 13})
   \<and> ((\<exists>e. fst (median_filter3d median3d s data kernel_size dif) = Inl e)
      \<longrightarrow> snd (median_filter3d median3d s data kernel_size dif) = s)
   \<and> ((\<exists>out. fst (median_filter3d median3d s data kernel_size dif) = Inr out)
      \<longleftrightarrow> dtype (mem s data) \<in> {Float32, UInt16}
          \<and> ndim (mem s data) = 3 \<and> 0 \<notin> set (shape (mem s data))
          \<and> arg_or 3 kernel_size \<in> {3, 5, 7, 9, 11, 13})
   \<and> ((\<exists>out. fst (median_filter3d median3d s data kernel_size dif) = Inr out)
      \<longrightarrow> length (launches (snd (median_filter3d median3d s data kernel_size dif)))
            = Suc (length (launches s)))"
  by (simp add: median_filter3d_def Let_def alloc_def split: prod.splits)

theorem median_filter3d_errors_witness:
  "fst (median_filter3d copy_kernel (store_of [const_array UInt16 [2, 0, 2] 1]) 0 (Given 3) Omitted)
     = Inl (ValueError ZeroDim)
   \<and> snd (median_filter3d copy_kernel (store_of [const_array UInt16 [2, 0, 2] 1]) 0 (Given 3) Omitted)
     = store_of [const_array UInt16 [2, 0, 2] 1]
   \<and> fst (median_filter3d copy_kernel (store_of [const_array Float32 [2, 2, 2] 1]) 0 (Given 4) Omitted)
     = Inl (ValueError BadKernel)
   \<and> fst (median_filter3d copy_kernel (store_of [const_array Float32 [2, 2, 2] 1]) 0 Omitted Omitted)
     = Inr 1"
proof -
  let ?z = "store_of [const_array UInt16 [2, 0, 2] 1]"
  let ?f = "store_of [const_array Float32 [2, 2, 2] 1]"
  have z: "dtype (mem ?z 0) = UInt16" "shape (mem ?z 0) = [2, 0, 2]"
    and f: "dtype (mem ?f 0) = Float32" "shape (mem ?f 0) = [2, 2, 2]"
    by (simp_all add: store_of_def const_array_def)
  have "fst (median_filter3d copy_kernel ?z 0 (Given 3) Omitted)
          \<in> {Inl (ValueError Not3D), Inl (ValueError ZeroDim)}"
    and "snd (median_filter3d copy_kernel ?z 0 (Given 3) Omitted) = ?z"
    using median_filter3d_errors [of copy_kernel ?z 0 "Given 3" Omitted] z
    by (auto simp: ndim_def)
  moreover have "fst (median_filter3d copy_kernel ?z 0 (Given 3) Omitted) \<noteq> Inl (ValueError Not3D)"
    by (simp add: median_filter3d_def Let_def ndim_def store_of_def const_array_def)
  moreover have "fst (median_filter3d copy_kernel ?f 0 (Given 4) Omitted) = Inl (ValueError BadKernel)"
    using median_filter3d_errors [of copy_kernel ?f 0 "Given 4" Omitted] f
    by (simp add: ndim_def)
  moreover have "fst (median_filter3d copy_kernel ?f 0 Omitted Omitted) = Inr 1"
    by (simp add: median_filter3d_def Let_def ndim_def alloc_def store_of_def const_array_def)
  ultimately show ?thesis by simp
qed


section \<open>Properties of the normalisation\<close>







text \<open>
  Claim C4 fails on the code: flats and darks given as single two-dimensional frames are
  rejected. The mean over the first axis is taken before the number of axes is looked at,
  so a frame of \<open>h\<close> rows and \<open>w\<close> columns becomes a row of \<open>w\<close> means, which has one
  axis, and the check "2D or 3D" raises the error of the flats.
\<close>

theorem normalize_cupy_rejects_2d_flats:
  assumes "ndim (mem s data) = 3"
    and "shape (mem s flats) = [h, w]" and "shape (mem s darks) = [h, w]" and "0 < h"
  shows "normalize_cupy s data flats darks gpu_id cutoff minus_log nonnegativity remove_nans
           = (Inl (ValueError Flats2D3D), s\<lparr>device := gpu_id\<rparr>)"
  using assms by (simp add: normalize_cupy_def mean_axis0_def ndim_def Let_def)

theorem normalize_cupy_rejects_2d_flats_witness:
  "ndim (mem (store_of [const_array Float32 [1, 2, 2] 12, const_array Float32 [2, 2] 2,
                        const_array Float32 [2, 2] 2]) 0) = 3
   \<and> fst (normalize_cupy (store_of [const_array Float32 [1, 2, 2] 12, const_array Float32 [2, 2] 2,
                                    const_array Float32 [2, 2] 2]) 0 1 2 0 10 False False False)
     = Inl (ValueError Flats2D3D)"
proof -
  let ?s = "store_of [const_array Float32 [1, 2, 2] 12, const_array Float32 [2, 2] 2,
                      const_array Float32 [2, 2] 2]"
  have sh: "ndim (mem ?s 0) = 3" "shape (mem ?s 1) = [2, 2]" "shape (mem ?s 2) = [2, 2]"
    by (simp_all add: store_of_def const_array_def ndim_def)
  have "(0::nat) < 2" by simp
  from normalize_cupy_rejects_2d_flats [OF sh this, where gpu_id = 0 and cutoff = 10
      and minus_log = False and nonnegativity = False and remove_nans = False] sh(1)
  show ?thesis by simp
qed

section \<open>Properties of the distortion correction\<close>

text \<open>
  Claim C1 fails on the code: without a metadata file nothing is resolved from the explicit
  centre and coefficients. Line 60 calls \<open>_load_metadata_txt(metadata_path)\<close> before
  anything else is looked at, and \<open>open(None, 'r')\<close> raises \<open>TypeError\<close>; the branch
  \<open>if metadata_path is None\<close> is never reached. The store is as before the call.
\<close>

theorem correct_distortion_without_file_raises:
  "correct_distortion pf fs s data None preview (Some center_from_left) (Some center_from_top)
       (Some polynomial_coeffs) crop
     = (Inl TypeError, s)"
  by (simp add: correct_distortion_def distortion_model_def load_metadata_txt_def open_read_def)

text \<open>
  Claim C7 fails on the code for the same reason: the metadata file is read before the
  preview steps are checked, so with steps of 2 on both spatial axes a call without a
  metadata file raises \<open>TypeError\<close> and a call that names a file that does not exist raises
  \<open>FileNotFoundError\<close>, not the error of the step check.
\<close>

theorem correct_distortion_steps_checked_after_load:
  "correct_distortion pf fs s data None (preview_of [0, 0, 0] [2, 2, 2])
       (Some center_from_left) (Some center_from_top) (Some polynomial_coeffs) crop
     = (Inl TypeError, s)
   \<and> correct_distortion pf (\<lambda>p. None) s data (Some path) (preview_of [0, 0, 0] [2, 2, 2])
       None None None crop
     = (Inl FileNotFoundError, s)"
  by (simp add: correct_distortion_def distortion_model_def load_metadata_txt_def open_read_def)

text \<open>When the file can be read and parsed, steps above 1 at the indices 0 or 1 of the
  preview do raise the error of the step check, before any frame is touched.\<close>

lemma correct_distortion_step_check:
  assumes "load_metadata_txt pf fs metadata_path = Inr m"
    and "preview ''starts'' = Some shift" and "preview ''steps'' = Some step"
    and "2 \<le> length step" and "1 < step ! 0 \<or> 1 < step ! 1"
  shows "correct_distortion pf fs s data metadata_path preview center_from_left center_from_top
           polynomial_coeffs crop
         = (Inl (ValueError StepTooLarge), s)"
  using assms
  by (auto simp: correct_distortion_def distortion_model_def dict_get_def py_nth_def)





subsection \<open>The loop over the frames\<close>


lemma unwarp_frame_shape:
  "shape (unwarp_frame d i yd xd h w crop) = cropped_shape h w crop"
  "dtype (unwarp_frame d i yd xd h w crop) = Float64"
  by (simp_all add: unwarp_frame_def cropped_shape_def split: prod.splits)

lemma unwarp_frame_cong:
  "(\<And>r. elem d' (i # r) = elem d (i # r))
     \<Longrightarrow> unwarp_frame d' i yd xd h w crop = unwarp_frame d i yd xd h w crop"
  by (simp add: unwarp_frame_def)

lemma assign_frame_simps:
  "shape (assign_frame d i m) = shape d"
  "dtype (assign_frame d i m) = dtype d"
  "ndim (assign_frame d i m) = ndim d"
  "elem (assign_frame d i m) [] = elem d []"
  "elem (assign_frame d i m) (f # r)
     = (if f = i then cast_to (dtype d) (elem m (bidx (shape m) r)) else elem d (f # r))"
  by (simp_all add: assign_frame_def ndim_def)


lemma unwarp_loop_last:
  "unwarp_loop yd xd h w crop is d mc = (None, d', Some m) \<Longrightarrow> is \<noteq> []
     \<Longrightarrow> (\<exists>d0. m = unwarp_frame d0 (last is) yd xd h w crop)
         \<and> (\<forall>r. elem d' (last is # r) = cast_to (dtype d) (elem m (bidx (shape m) r)))"
proof (induction "is" arbitrary: d mc)
  case Nil
  then show ?case by simp
next
  case (Cons i rest)
  let ?m = "unwarp_frame d i yd xd h w crop"
  from Cons.prems(1) have ok: "ndim d = 3" "assignable (shape ?m) [h, w]"
    and rec: "unwarp_loop yd xd h w crop rest (assign_frame d i ?m) (Some ?m) = (None, d', Some m)"
    by (auto simp: Let_def split: if_splits)
  show ?case
  proof (cases "rest = []")
    case True
    with rec show ?thesis by (auto simp: assign_frame_simps)
  next
    case False
    from Cons.IH [OF rec False] False show ?thesis
      by (simp add: assign_frame_simps)
  qed
qed


lemma unwarp_loop_distinct:
  assumes "ndim d = 3" and "assignable (cropped_shape h w crop) [h, w]" and "distinct is"
  shows "unwarp_loop yd xd h w crop is d mc =
     (None,
      d\<lparr>elem := (\<lambda>idx. case idx of
                     [] \<Rightarrow> elem d idx
                   | f # r \<Rightarrow>
                       if f \<in> set is
                       then cast_to (dtype d)
                              (elem (unwarp_frame d f yd xd h w crop) (bidx (cropped_shape h w crop) r))
                       else elem d idx)\<rparr>,
      if is = [] then mc else Some (unwarp_frame d (last is) yd xd h w crop))"
  using assms(1,3)
proof (induction "is" arbitrary: d mc)
  case Nil
  have "(\<lambda>idx. case idx of
                     [] \<Rightarrow> elem d idx
                   | f # r \<Rightarrow>
                       if f \<in> set []
                       then cast_to (dtype d)
                              (elem (unwarp_frame d f yd xd h w crop) (bidx (cropped_shape h w crop) r))
                       else elem d idx) = elem d"
    by (rule ext) (simp split: list.splits)
  then show ?case by simp
next
  case (Cons i rest)
  let ?m = "unwarp_frame d i yd xd h w crop"
  let ?d1 = "assign_frame d i ?m"
  let ?fsh = "cropped_shape h w crop"
  have sh: "shape ?m = ?fsh" by (simp add: unwarp_frame_shape)
  have d1: "ndim ?d1 = 3" using Cons.prems(1) by (simp add: assign_frame_simps)
  from Cons.prems(2) have ni: "i \<notin> set rest" and dr: "distinct rest" by simp_all
  have fr: "unwarp_frame ?d1 f yd xd h w crop = unwarp_frame d f yd xd h w crop" if "f \<noteq> i" for f
    using that by (intro unwarp_frame_cong) (simp add: assign_frame_simps)
  have step: "unwarp_loop yd xd h w crop (i # rest) d mc
                = unwarp_loop yd xd h w crop rest ?d1 (Some ?m)"
    using Cons.prems(1) assms(2) sh by (simp add: Let_def)
  have last_eq: "rest \<noteq> [] \<Longrightarrow> unwarp_frame ?d1 (last rest) yd xd h w crop
                   = unwarp_frame d (last rest) yd xd h w crop"
    using ni by (intro fr) (metis last_in_set)
  have el: "(\<lambda>idx. case idx of
                     [] \<Rightarrow> elem ?d1 idx
                   | f # r \<Rightarrow>
                       if f \<in> set rest
                       then cast_to (dtype ?d1) (elem (unwarp_frame ?d1 f yd xd h w crop) (bidx ?fsh r))
                       else elem ?d1 idx)
           = (\<lambda>idx. case idx of
                     [] \<Rightarrow> elem d idx
                   | f # r \<Rightarrow>
                       if f \<in> set (i # rest)
                       then cast_to (dtype d) (elem (unwarp_frame d f yd xd h w crop) (bidx ?fsh r))
                       else elem d idx)"
  proof (rule ext)
    fix idx
    show "(case idx of
                     [] \<Rightarrow> elem ?d1 idx
                   | f # r \<Rightarrow>
                       if f \<in> set rest
                       then cast_to (dtype ?d1) (elem (unwarp_frame ?d1 f yd xd h w crop) (bidx ?fsh r))
                       else elem ?d1 idx)
           = (case idx of
                     [] \<Rightarrow> elem d idx
                   | f # r \<Rightarrow>
                       if f \<in> set (i # rest)
                       then cast_to (dtype d) (elem (unwarp_frame d f yd xd h w crop) (bidx ?fsh r))
                       else elem d idx)"
    proof (cases idx)
      case Nil
      then show ?thesis by (simp add: assign_frame_simps)
    next
      case (Cons f r)
      have "f \<in> set rest \<Longrightarrow> unwarp_frame ?d1 f yd xd h w crop = unwarp_frame d f yd xd h w crop"
        using ni by (intro fr) auto
      moreover have "f \<in> set rest \<Longrightarrow> f \<noteq> i" using ni by auto
      ultimately show ?thesis using Cons sh
        by (auto simp: assign_frame_simps)
    qed
  qed
  have upd: "?d1\<lparr>elem := g\<rparr> = d\<lparr>elem := g\<rparr>" for g
    by (simp add: assign_frame_def)
  show ?case
    unfolding step Cons.IH [OF d1 dr] el upd
    using last_eq by simp
qed

lemma unwarp_loop_upt:
  assumes "ndim d = 3" and "assignable (cropped_shape h w crop) [h, w]" and "0 < n"
  shows "unwarp_loop yd xd h w crop [0..<n] d mc =
     (None,
      d\<lparr>elem := (\<lambda>idx. case idx of
                     [] \<Rightarrow> elem d idx
                   | f # r \<Rightarrow>
                       if f < n
                       then cast_to (dtype d)
                              (elem (unwarp_frame d f yd xd h w crop) (bidx (cropped_shape h w crop) r))
                       else elem d idx)\<rparr>,
      Some (unwarp_frame d (n - 1) yd xd h w crop))"
proof -
  have el: "(\<lambda>idx. case idx of
                     [] \<Rightarrow> elem d idx
                   | f # r \<Rightarrow>
                       if f \<in> set [0..<n]
                       then cast_to (dtype d)
                              (elem (unwarp_frame d f yd xd h w crop) (bidx (cropped_shape h w crop) r))
                       else elem d idx)
          = (\<lambda>idx. case idx of
                     [] \<Rightarrow> elem d idx
                   | f # r \<Rightarrow>
                       if f < n
                       then cast_to (dtype d)
                              (elem (unwarp_frame d f yd xd h w crop) (bidx (cropped_shape h w crop) r))
                       else elem d idx)"
    by (rule ext) (simp split: list.splits)
  have ne: "[0..<n] \<noteq> []" and la: "last [0..<n] = n - 1"
    using assms(3) by (simp_all add: last_upt)
  have di: "distinct [0..<n]" by simp
  show ?thesis
    unfolding unwarp_loop_distinct [OF assms(1,2) di] el la
    using ne by simp
qed

lemma correct_distortion_stack:
  assumes model: "distortion_model pf fs metadata_path preview center_from_left center_from_top
                    polynomial_coeffs = Inr (x_center, y_center, list_fact)"
    and sh: "shape (mem s data) = [n, h, w]" and n: "0 < n"
    and mm: "max_minus_min h w (yd_mat h list_fact x_center y_center) = Inr diff_y" "1 \<le> diff_y"
    and asg: "assignable (cropped_shape h w crop) [h, w]"
  shows "correct_distortion pf fs s data metadata_path preview center_from_left center_from_top
           polynomial_coeffs crop =
     (Inr (brk s),
      s\<lparr>mem := (mem s)
          (data := (mem s data)\<lparr>elem := (\<lambda>idx. case idx of
                     [] \<Rightarrow> elem (mem s data) idx
                   | f # r \<Rightarrow>
                       if f < n
                       then cast_to (dtype (mem s data))
                              (elem (unwarp_frame (mem s data) f (yd_mat h list_fact x_center y_center)
                                       (xd_mat w list_fact x_center y_center) h w crop)
                                    (bidx (cropped_shape h w crop) r))
                       else elem (mem s data) idx)\<rparr>,
           brk s := unwarp_frame (mem s data) (n - 1) (yd_mat h list_fact x_center y_center)
                      (xd_mat w list_fact x_center y_center) h w crop),
        brk := Suc (brk s)\<rparr>)"
proof -
  have nd: "ndim (mem s data) = 3" using sh by (simp add: ndim_def)
  note loop = unwarp_loop_upt [OF nd asg n, of "yd_mat h list_fact x_center y_center"
        "xd_mat w list_fact x_center y_center" None]
  have v: "(if ndim (mem s data) = 2 then newaxis (mem s data) else mem s data) = mem s data"
    using nd by simp
  show ?thesis
    unfolding correct_distortion_def Let_def v
    using model sh mm nd 
    by (simp add: py_nth_def alloc_def loop)
qed


lemma sbind_Inr_iff: "sbind m f = Inr y \<longleftrightarrow> (\<exists>x. m = Inr x \<and> f x = Inr y)"
  by (cases m) simp_all

lemma correct_distortion_success_loop:
  assumes "correct_distortion pf fs s data metadata_path preview center_from_left center_from_top
             polynomial_coeffs crop = (Inr out, s')"
  obtains x_center y_center list_fact h w view1 m where
    "distortion_model pf fs metadata_path preview center_from_left center_from_top
       polynomial_coeffs = Inr (x_center, y_center, list_fact)"
    and "py_nth (shape (if ndim (mem s data) = 2 then newaxis (mem s data) else mem s data)) 1 = Inr h"
    and "py_nth (shape (if ndim (mem s data) = 2 then newaxis (mem s data) else mem s data)) 2 = Inr w"
    and "unwarp_loop (yd_mat h list_fact x_center y_center) (xd_mat w list_fact x_center y_center)
           h w crop
           [0..<shape (if ndim (mem s data) = 2 then newaxis (mem s data) else mem s data) ! 0]
           (if ndim (mem s data) = 2 then newaxis (mem s data) else mem s data) None
         = (None, view1, Some m)"
    and "out = brk s"
    and "s' = s\<lparr>mem := (mem s)
                (data := (if ndim (mem s data) = 2
                          then (mem s data)\<lparr>elem := (\<lambda>idx. elem view1 (0 # idx))\<rparr> else view1),
                 brk s := m),
              brk := Suc (brk s)\<rparr>"
  using assms
  unfolding correct_distortion_def Let_def
  by (auto simp: alloc_def sbind_Inr_iff split: sum.splits prod.splits if_splits option.splits)


subsection \<open>The sampling map of the identity coefficients\<close>

lemma sum_list_zero_coeffs:
  "sum_list (map (\<lambda>(i, factor). factor * ru ^ i) (enumerate n (replicate k (0::real)))) = 0"
  by (induction k arbitrary: n) simp_all

lemma fact_mat_identity: "fact_mat (1 # replicate k 0) x_center y_center y x = 1"
  by (simp add: fact_mat_def sum_list_zero_coeffs)

lemma xd_mat_identity: "x < width \<Longrightarrow> xd_mat width (1 # replicate k 0) x_center y_center y x = real x"
  by (simp add: xd_mat_def fact_mat_identity clip_def min_def max_def of_nat_diff)

lemma yd_mat_identity: "y < height \<Longrightarrow> yd_mat height (1 # replicate k 0) x_center y_center y x = real y"
  by (simp add: yd_mat_def fact_mat_identity clip_def min_def max_def of_nat_diff)

lemma reflect_index_inside: "i < n \<Longrightarrow> reflect_index n (int i) = i"
  by (simp add: reflect_index_def Let_def)

lemma interp_linear_at_pixel:
  "y < h \<Longrightarrow> x < w \<Longrightarrow> interp_linear img h w (real y) (real x) = img [y, x]"
  by (simp add: interp_linear_def Let_def reflect_index_inside)

subsection \<open>The call at concrete inputs\<close>


lemma identity_model:
  "distortion_model float_of_digits identity_coeffs (Some ''coeffs.txt'') unit_preview None None None
     = Inr (1, 1, [1, 0, 0])"
  unfolding identity_coeffs_def unit_preview_def by code_simp


lemma upt_small: "[0..<2] = [0, 1]" "[0..<3] = [0, 1, 2]"
  by code_simp+


lemma identity_maps:
  "y < h \<Longrightarrow> yd_mat h [1, 0, 0] 1 1 y x = real y" "x < w \<Longrightarrow> xd_mat w [1, 0, 0] 1 1 y x = real x"
  using yd_mat_identity [of y h 2 1 1 x] xd_mat_identity [of x w 2 1 1 y]
  by (simp_all add: numeral_2_eq_2)

lemma identity_spread: "max_minus_min 2 2 (yd_mat 2 [1, 0, 0] 1 1) = Inr 1"
  by (simp add: max_minus_min_def identity_maps upt_small)

lemma uncropped: "cropped_shape h w 0 = [h, w]" "assignable [h, w] [h, w]"
  by (simp_all add: cropped_shape_def slice_bounds_def slice_adjust_def assignable_def
      broadcast_shapes_def)


lemma correct_distortion_stack_facts:
  assumes model: "distortion_model pf fs metadata_path preview center_from_left center_from_top
                    polynomial_coeffs = Inr (x_center, y_center, list_fact)"
    and sh: "shape (mem s data) = [n, h, w]" and n: "0 < n"
    and mm: "max_minus_min h w (yd_mat h list_fact x_center y_center) = Inr diff_y" "1 \<le> diff_y"
    and asg: "assignable (cropped_shape h w crop) [h, w]"
  defines "r \<equiv> correct_distortion pf fs s data metadata_path preview center_from_left
                  center_from_top polynomial_coeffs crop"
  shows "fst r = Inr (brk s)"
    and "mem (snd r) (brk s)
           = unwarp_frame (mem s data) (n - 1) (yd_mat h list_fact x_center y_center)
               (xd_mat w list_fact x_center y_center) h w crop"
    and "data \<noteq> brk s \<Longrightarrow> f < n \<Longrightarrow>
         elem (mem (snd r) data) (f # idx)
           = cast_to (dtype (mem s data))
               (elem (unwarp_frame (mem s data) f (yd_mat h list_fact x_center y_center)
                        (xd_mat w list_fact x_center y_center) h w crop)
                     (bidx (cropped_shape h w crop) idx))"
  unfolding r_def correct_distortion_stack [OF model sh n mm asg]
  by simp_all

lemma unwarp_frame_elem:
  "elem (unwarp_frame d i yd xd h w crop) [y, x]
     = interp_linear (\<lambda>r. elem d (i # r)) h w
         (yd (y + fst (slice_bounds h crop (int h - crop))) (x + fst (slice_bounds w crop (int w - crop))))
         (xd (y + fst (slice_bounds h crop (int h - crop))) (x + fst (slice_bounds w crop (int w - crop))))"
  by (simp add: unwarp_frame_def split: prod.splits)


lemma identity_call:
  "fst (correct_distortion float_of_digits identity_coeffs (store_of [ramp_array Float32 [2, 2, 2]]) 0
       (Some ''coeffs.txt'') unit_preview None None None 0) = Inr 1"
  "shape (mem (snd (correct_distortion float_of_digits identity_coeffs
                     (store_of [ramp_array Float32 [2, 2, 2]]) 0
                     (Some ''coeffs.txt'') unit_preview None None None 0)) 1) = [2, 2]"
  "elem (mem (snd (correct_distortion float_of_digits identity_coeffs
                     (store_of [ramp_array Float32 [2, 2, 2]]) 0
                     (Some ''coeffs.txt'') unit_preview None None None 0)) 1) [0, 1] = 101"
proof -
  let ?s = "store_of [ramp_array Float32 [2, 2, 2]]"
  let ?r = "correct_distortion float_of_digits identity_coeffs ?s 0
       (Some ''coeffs.txt'') unit_preview None None None 0"
  have sh: "shape (mem ?s 0) = [2, 2, 2]" by (simp add: store_of_def ramp_array_def)
  have asg: "assignable (cropped_shape 2 2 0) [2, 2]" by (simp add: uncropped)
  have n: "(0::nat) < 2" and d: "(1::real) \<le> 1" and b: "brk ?s = 1"
    by (simp_all add: store_of_def)
  note facts = correct_distortion_stack_facts [OF identity_model sh n identity_spread d asg]
  show "fst ?r = Inr 1"
    using facts(1) by (simp add: b)
  show "shape (mem (snd ?r) 1) = [2, 2]"
    using facts(2) by (simp add: b unwarp_frame_shape uncropped)
  have "elem (mem (snd ?r) (brk ?s)) [0, 1] = 101"
    unfolding facts(2)
    by (simp add: unwarp_frame_elem slice_bounds_def slice_adjust_def identity_maps
        interp_linear_def reflect_index_def store_of_def ramp_array_def)
  then show "elem (mem (snd ?r) 1) [0, 1] = 101"
    by (simp add: b)
qed

text \<open>
  Claim C2 fails on the code: what a successful call returns is \<open>mat_corrected\<close>, the
  last frame that the loop unwarped and cropped, a two-dimensional float64 array, and not
  the stack (the docstring promises "the corrected stack of 2D images").
\<close>

theorem correct_distortion_returns_one_frame:
  assumes "correct_distortion pf fs s data metadata_path preview center_from_left center_from_top
             polynomial_coeffs crop = (Inr out, s')"
  shows "ndim (mem s' out) = 2"
proof -
  from assms obtain yd xd h w view1 m n d where
    loop: "unwarp_loop yd xd h w crop [0..<n] d None = (None, view1, Some m)"
    and out: "out = brk s"
    and s': "s' = s\<lparr>mem := (mem s)
                (data := (if ndim (mem s data) = 2
                          then (mem s data)\<lparr>elem := (\<lambda>idx. elem view1 (0 # idx))\<rparr> else view1),
                 brk s := m),
              brk := Suc (brk s)\<rparr>"
    by (rule correct_distortion_success_loop) blast
  have ne: "[0..<n] \<noteq> []"
  proof
    assume "[0..<n] = []"
    with loop show False by simp
  qed
  from unwarp_loop_last [OF loop ne] obtain d0 where "m = unwarp_frame d0 (last [0..<n]) yd xd h w crop"
    by blast
  then have "ndim m = 2"
    by (simp add: ndim_def unwarp_frame_shape cropped_shape_def)
  with out s' show ?thesis by simp
qed

theorem correct_distortion_returns_one_frame_witness:
  "ndim (mem (store_of [ramp_array Float32 [2, 2, 2]]) 0) = 3
   \<and> fst (correct_distortion float_of_digits identity_coeffs (store_of [ramp_array Float32 [2, 2, 2]]) 0
       (Some ''coeffs.txt'') unit_preview None None None 0) = Inr 1
   \<and> ndim (mem (snd (correct_distortion float_of_digits identity_coeffs
                     (store_of [ramp_array Float32 [2, 2, 2]]) 0
                     (Some ''coeffs.txt'') unit_preview None None None 0)) 1) = 2"
proof -
  let ?s = "store_of [ramp_array Float32 [2, 2, 2]]"
  let ?r = "correct_distortion float_of_digits identity_coeffs ?s 0
       (Some ''coeffs.txt'') unit_preview None None None 0"
  have "?r = (Inr 1, snd ?r)"
    using identity_call(1) by (metis prod.collapse)
  from correct_distortion_returns_one_frame [OF this]
  have "ndim (mem (snd ?r) 1) = 2" .
  moreover have "ndim (mem ?s 0) = 3"
    by (simp add: ndim_def store_of_def ramp_array_def)
  ultimately show ?thesis using identity_call(1) by simp
qed

text \<open>
  Claim C8 fails on the code. The identity coefficients 1, 0, 0 do give the identity
  sampling map (\<open>xd_mat_identity\<close>, \<open>yd_mat_identity\<close>), but what the call returns is
  not the cropped stack. For a stack of two frames of 2 by 2 pixels and no crop the call
  returns one frame of 2 by 2 pixels holding the second frame (pixel (0, 1) of the result is
  101, pixel (1, 0, 1) of the input, where pixel (0, 0, 1) of the input is 1). With a crop
  of 1 on a frame of 4 by 4 pixels the cropped frame of 2 by 2 pixels is assigned to
  \<open>data[i]\<close> of 4 by 4 pixels, which raises the \<open>ValueError\<close> of broadcasting.
\<close>

theorem correct_distortion_identity_returns_last_frame:
  "fst (correct_distortion float_of_digits identity_coeffs (store_of [ramp_array Float32 [2, 2, 2]]) 0
       (Some ''coeffs.txt'') unit_preview None None None 0) = Inr 1
   \<and> shape (mem (store_of [ramp_array Float32 [2, 2, 2]]) 0) = [2, 2, 2]
   \<and> shape (mem (snd (correct_distortion float_of_digits identity_coeffs
                     (store_of [ramp_array Float32 [2, 2, 2]]) 0
                     (Some ''coeffs.txt'') unit_preview None None None 0)) 1) = [2, 2]
   \<and> elem (mem (store_of [ramp_array Float32 [2, 2, 2]]) 0) [0, 0, 1] = 1
   \<and> elem (mem (store_of [ramp_array Float32 [2, 2, 2]]) 0) [1, 0, 1] = 101
   \<and> elem (mem (snd (correct_distortion float_of_digits identity_coeffs
                     (store_of [ramp_array Float32 [2, 2, 2]]) 0
                     (Some ''coeffs.txt'') unit_preview None None None 0)) 1) [0, 1] = 101
   \<and> fst (correct_distortion float_of_digits identity_coeffs (store_of [ramp_array Float32 [1, 4, 4]]) 0
       (Some ''coeffs.txt'') unit_preview None None None 1) = Inl (ValueError Broadcast)"
proof -
  have in_el: "elem (mem (store_of [ramp_array Float32 [2, 2, 2]]) 0) [0, 0, 1] = 1"
      "elem (mem (store_of [ramp_array Float32 [2, 2, 2]]) 0) [1, 0, 1] = 101"
      "shape (mem (store_of [ramp_array Float32 [2, 2, 2]]) 0) = [2, 2, 2]"
    by (simp_all add: store_of_def ramp_array_def)
  have u4: "[0..<4] = [0, 1, 2, 3]" by code_simp
  have spread: "max_minus_min 4 4 (yd_mat 4 [1, 0, 0] 1 1) = Inr 3"
    by (simp add: max_minus_min_def identity_maps u4)
  have crop1: "cropped_shape 4 4 1 = [2, 2]" "\<not> assignable [2, 2] [4, 4]"
    by (simp_all add: cropped_shape_def slice_bounds_def slice_adjust_def assignable_def
        broadcast_shapes_def)
  have "fst (correct_distortion float_of_digits identity_coeffs (store_of [ramp_array Float32 [1, 4, 4]]) 0
       (Some ''coeffs.txt'') unit_preview None None None 1) = Inl (ValueError Broadcast)"
    by (simp add: correct_distortion_def identity_model store_of_def ramp_array_def ndim_def
        py_nth_def spread Let_def unwarp_frame_shape crop1)
  with in_el identity_call show ?thesis by simp
qed







end
